theory Spec2Isabelle
  imports Main "HOL-Library.AList"
begin

section \<open>The game engine of \<^verbatim>\<open>src/server/game.py\<close>\<close>

subsection \<open>Data model\<close>

text \<open>
  Positions are pairs of Python integers. A train has a head position, a heading, a
  queued heading, its wagons front to back, and the alive flag. The class \<^verbatim>\<open>Train\<close>
  lives in \<^verbatim>\<open>train.py\<close>, which is not among the sources; its fields are those of
  section 3 of the specification.
\<close>

type_synonym pos = "int \<times> int"

datatype direction = UP | DOWN | LEFT | RIGHT

record train =
  position :: pos
  direction :: direction
  pending :: "direction option"
  wagons :: "pos list"
  alive :: bool
  agent_name :: string

record passenger =
  p_position :: pos

text \<open>
  The class \<^verbatim>\<open>Game\<close>. The dictionary \<^verbatim>\<open>trains\<close> is an association list in insertion
  order (Python dictionaries iterate in insertion order). The field \<open>random_tape\<close> is
  not a field of the class: it is the state of Python's \<^verbatim>\<open>random\<close> module, the raw
  outcomes still to be drawn, threaded through the engine. The lock and the clock
  reading \<^verbatim>\<open>last_update\<close> hold no data of the simulation and are left out of the record.
\<close>

record game =
  screen_width :: int
  screen_height :: int
  grid_size :: int
  running :: bool
  trains :: "(string \<times> train) list"
  passengers :: "passenger list"
  screen_padding :: int
  spawn_safe_zone :: int
  random_tape :: "nat list"

definition ORIGINAL_SCREEN_WIDTH :: int where
  "ORIGINAL_SCREEN_WIDTH = 200"

definition ORIGINAL_SCREEN_HEIGHT :: int where
  "ORIGINAL_SCREEN_HEIGHT = 200"

text \<open>\<^verbatim>\<open>Game.__init__\<close>, for a given supply of random outcomes.\<close>

definition Game :: "nat list \<Rightarrow> game" where
  "Game tape =
     \<lparr> screen_width = ORIGINAL_SCREEN_WIDTH,
       screen_height = ORIGINAL_SCREEN_HEIGHT,
       grid_size = 20,
       running = True,
       trains = [],
       passengers = [],
       screen_padding = 100,
       spawn_safe_zone = 3,
       random_tape = tape \<rparr>"

subsection \<open>Exceptions and random numbers\<close>

datatype error = ValueError | ZeroDivisionError

text \<open>Python's \<^verbatim>\<open>a // b\<close>: floor division, which raises on a zero divisor.\<close>

definition floordiv :: "int \<Rightarrow> int \<Rightarrow> error + int" where
  "floordiv a b = (if b = 0 then Inl ZeroDivisionError else Inr (a div b))"

text \<open>The next raw outcome of the random module; an exhausted tape yields 0.\<close>

definition draw :: "game \<Rightarrow> nat \<times> game" where
  "draw g =
     (case random_tape g of
        [] \<Rightarrow> (0, g)
      | r # rs \<Rightarrow> (r, g\<lparr>random_tape := rs\<rparr>))"

text \<open>
  \<^verbatim>\<open>random.randint(a, b)\<close> returns an integer of the closed range from \<open>a\<close> to \<open>b\<close>
  and raises \<^verbatim>\<open>ValueError\<close> when the range is empty. Every raw outcome is folded
  into the range, so every tape is a legal run of the generator.
\<close>

definition randint :: "int \<Rightarrow> int \<Rightarrow> game \<Rightarrow> error + (int \<times> game)" where
  "randint a b g =
     (if b < a then Inl ValueError
      else (case draw g of (r, g') \<Rightarrow> Inr (a + int r mod (b - a + 1), g')))"

subsection \<open>Spawn safety\<close>

text \<open>The inner loop of \<^verbatim>\<open>is_position_safe\<close> over the wagons of one train.\<close>

fun wagon_too_close :: "int \<Rightarrow> int \<Rightarrow> int \<Rightarrow> pos list \<Rightarrow> bool" where
  "wagon_too_close sd x y [] = False"
| "wagon_too_close sd x y ((wagon_x, wagon_y) # ws) =
     (if \<bar>wagon_x - x\<bar> < sd \<and> \<bar>wagon_y - y\<bar> < sd then True
      else wagon_too_close sd x y ws)"

text \<open>The outer loop over \<^verbatim>\<open>self.trains.values()\<close>; the result is the value returned.\<close>

fun trains_safe :: "int \<Rightarrow> int \<Rightarrow> int \<Rightarrow> train list \<Rightarrow> bool" where
  "trains_safe sd x y [] = True"
| "trains_safe sd x y (t # ts) =
     (case position t of (train_x, train_y) \<Rightarrow>
        if \<bar>train_x - x\<bar> < sd \<and> \<bar>train_y - y\<bar> < sd then False
        else if wagon_too_close sd x y (wagons t) then False
        else trains_safe sd x y ts)"

definition safe_distance :: "game \<Rightarrow> int" where
  "safe_distance g = grid_size g * spawn_safe_zone g"

definition is_position_safe :: "game \<Rightarrow> int \<Rightarrow> int \<Rightarrow> bool" where
  "is_position_safe g x y =
     (if x < safe_distance g \<or> y < safe_distance g
         \<or> x > screen_width g - safe_distance g
         \<or> y > screen_height g - safe_distance g
      then False
      else trains_safe (safe_distance g) x y (map snd (trains g)))"

subsection \<open>Shrinking test\<close>

text \<open>The inner loop of \<^verbatim>\<open>can_reduce_padding\<close> over the wagons of one train.\<close>

fun wagon_blocks :: "int \<Rightarrow> int \<Rightarrow> pos list \<Rightarrow> bool" where
  "wagon_blocks lx ly [] = False"
| "wagon_blocks lx ly ((x, y) # ws) =
     (if x \<ge> lx \<or> y \<ge> ly then True else wagon_blocks lx ly ws)"

fun trains_clear :: "int \<Rightarrow> int \<Rightarrow> train list \<Rightarrow> bool" where
  "trains_clear lx ly [] = True"
| "trains_clear lx ly (t # ts) =
     (case position t of (x, y) \<Rightarrow>
        if x \<ge> lx \<or> y \<ge> ly then False
        else if wagon_blocks lx ly (wagons t) then False
        else trains_clear lx ly ts)"

definition can_reduce_padding :: "game \<Rightarrow> bool" where
  "can_reduce_padding g =
     trains_clear (screen_width g - screen_padding g - 50)
                  (screen_height g - screen_padding g - 50)
                  (map snd (trains g))"

definition reduce_padding :: "game \<Rightarrow> game" where
  "reduce_padding g =
     (if can_reduce_padding g
      then g\<lparr>screen_width := screen_width g - screen_padding g,
             screen_height := screen_height g - screen_padding g\<rparr>
      else g)"

definition update_screen_size :: "game \<Rightarrow> game" where
  "update_screen_size g =
     g\<lparr>screen_width := screen_width g + screen_padding g,
       screen_height := screen_height g + screen_padding g\<rparr>"

subsection \<open>Passenger population\<close>

text \<open>
  Modelled from the spec: the constructor \<^verbatim>\<open>Passenger(game)\<close> of \<^verbatim>\<open>passenger.py\<close>,
  which is not among the sources. Sections 3 and 4.4 of the specification: a passenger
  is a point with a grid position, chosen at random, never off the grid, with no safety
  constraint; creating one does not fail. The two cell numbers are raw outcomes of the
  random module.
\<close>

definition Passenger :: "game \<Rightarrow> passenger \<times> game" where
  "Passenger g =
     (case draw g of (cx, g1) \<Rightarrow>
      case draw g1 of (cy, g2) \<Rightarrow>
        (\<lparr>p_position = (int cx * grid_size g, int cy * grid_size g)\<rparr>, g2))"

text \<open>
  \<^verbatim>\<open>max(1, int(len(self.trains) * PASSENGERS_RATIO))\<close> with the ratio 0.5: halving a
  length is exact in floating point and \<^verbatim>\<open>int\<close> truncates a non-negative value to its
  floor.
\<close>

definition desired_passengers :: "game \<Rightarrow> nat" where
  "desired_passengers g = max 1 (length (trains g) div 2)"

text \<open>The first loop of \<^verbatim>\<open>update_passengers_count\<close>: append until enough.\<close>

function add_passengers :: "nat \<Rightarrow> game \<Rightarrow> game" where
  "add_passengers d g =
     (if length (passengers g) < d
      then (case Passenger g of (new_passenger, g') \<Rightarrow>
              add_passengers d (g'\<lparr>passengers := passengers g' @ [new_passenger]\<rparr>))
      else g)"
  by pat_completeness auto

termination
  by (relation "measure (\<lambda>(d, g). d - length (passengers g))")
     (auto simp: Passenger_def draw_def split: list.splits prod.splits)

declare add_passengers.simps [simp del]

text \<open>The second loop: \<^verbatim>\<open>self.passengers.pop()\<close> while there are too many.\<close>

function pop_passengers :: "nat \<Rightarrow> game \<Rightarrow> game" where
  "pop_passengers d g =
     (if length (passengers g) > d
      then pop_passengers d (g\<lparr>passengers := butlast (passengers g)\<rparr>)
      else g)"
  by pat_completeness auto
termination
  by (relation "measure (\<lambda>(d, g). length (passengers g))") auto

declare pop_passengers.simps [simp del]

definition update_passengers_count :: "game \<Rightarrow> game" where
  "update_passengers_count g =
     pop_passengers (desired_passengers g) (add_passengers (desired_passengers g) g)"

subsection \<open>Spawning\<close>

text \<open>
  The loop of \<^verbatim>\<open>get_safe_spawn_position\<close>, by the number of attempts left: \<open>Some\<close> is
  the early return of a safe position, \<open>None\<close> the end of the loop. Both quotients are
  computed before the generator is asked, as Python evaluates the arguments first.
\<close>

fun spawn_attempts :: "nat \<Rightarrow> game \<Rightarrow> error + (pos option \<times> game)" where
  "spawn_attempts 0 g = Inr (None, g)"
| "spawn_attempts (Suc n) g =
     (case floordiv (screen_width g) (grid_size g) of
        Inl e \<Rightarrow> Inl e
      | Inr qx \<Rightarrow>
     (case randint (spawn_safe_zone g) (qx - spawn_safe_zone g) g of
        Inl e \<Rightarrow> Inl e
      | Inr (rx, g1) \<Rightarrow>
     (case floordiv (screen_height g1) (grid_size g1) of
        Inl e \<Rightarrow> Inl e
      | Inr qy \<Rightarrow>
     (case randint (spawn_safe_zone g1) (qy - spawn_safe_zone g1) g1 of
        Inl e \<Rightarrow> Inl e
      | Inr (ry, g2) \<Rightarrow>
          (let x = rx * grid_size g2; y = ry * grid_size g2
           in if is_position_safe g2 x y then Inr (Some (x, y), g2)
              else spawn_attempts n g2)))))"

definition get_safe_spawn_position :: "nat \<Rightarrow> game \<Rightarrow> error + (pos \<times> game)" where
  "get_safe_spawn_position max_attempts g =
     (case spawn_attempts max_attempts g of
        Inl e \<Rightarrow> Inl e
      | Inr (Some p, g') \<Rightarrow> Inr (p, g')
      | Inr (None, g') \<Rightarrow>
          (case floordiv (screen_width g' div 2) (grid_size g') of
             Inl e \<Rightarrow> Inl e
           | Inr cx \<Rightarrow>
          (case floordiv (screen_height g' div 2) (grid_size g') of
             Inl e \<Rightarrow> Inl e
           | Inr cy \<Rightarrow> Inr ((cx * grid_size g', cy * grid_size g'), g'))))"

text \<open>
  Modelled from the spec: the constructor \<^verbatim>\<open>Train(x, y, agent_name)\<close> of \<^verbatim>\<open>train.py\<close>,
  which is not among the sources. Section 3 of the specification: the head is where
  the engine spawns the train, the wagon chain is as long as the number of pickups,
  so empty, and the train is alive. The specification does not give the first heading;
  it is the parameter \<open>d0\<close>.
\<close>

definition Train :: "direction \<Rightarrow> int \<Rightarrow> int \<Rightarrow> string \<Rightarrow> train" where
  "Train d0 x y name =
     \<lparr> position = (x, y), direction = d0, pending = None, wagons = [],
       alive = True, agent_name = name \<rparr>"

text \<open>
  \<^verbatim>\<open>add_train\<close>. The assignment \<^verbatim>\<open>self.trains[agent_name] = ...\<close> replaces the value of
  a key that is present, in place, and appends a new key. The world grows after the
  lock is released, whatever happened before.
\<close>

definition add_train :: "direction \<Rightarrow> string \<Rightarrow> game \<Rightarrow> error + game" where
  "add_train d0 name g =
     (case get_safe_spawn_position 100 g of
        Inl e \<Rightarrow> Inl e
      | Inr ((start_x, start_y), g1) \<Rightarrow>
          Inr (update_screen_size
                (update_passengers_count
                  (g1\<lparr>trains :=
                        AList.update name (Train d0 start_x start_y name) (trains g1)\<rparr>))))"

subsection \<open>Removing a train\<close>

definition has_train :: "game \<Rightarrow> string \<Rightarrow> bool" where
  "has_train g name = (name \<in> set (map fst (trains g)))"

definition remove_train :: "string \<Rightarrow> game \<Rightarrow> game" where
  "remove_train name g =
     (let g1 = (if has_train g name
                then g\<lparr>trains := AList.delete name (trains g)\<rparr> else g);
          g2 = update_passengers_count g1
      in if length (trains g2) > 0
         then (if can_reduce_padding g2 then reduce_padding g2 else g2)
         else g2\<lparr>screen_width := ORIGINAL_SCREEN_WIDTH,
                 screen_height := ORIGINAL_SCREEN_HEIGHT,
                 passengers := []\<rparr>)"

subsection \<open>The tick\<close>

text \<open>
  Modelled from the spec: the methods \<^verbatim>\<open>update\<close>, \<^verbatim>\<open>check_collisions\<close>,
  \<^verbatim>\<open>check_out_of_bounds\<close> and \<^verbatim>\<open>change_direction\<close> of the class \<^verbatim>\<open>Train\<close> in
  \<^verbatim>\<open>train.py\<close>, which is not among the sources. Section 4.5 of the specification: a
  queued heading takes effect at the start of an update; the head advances by one grid
  cell in the heading and every wagon takes the place of the segment ahead of it; a
  passenger on the new head cell is consumed, one passenger leaves the shared list and
  one wagon is appended at the tail (here on the cell the tail has just left). A train
  is dead when its head is on the head of another train or on a wagon of any train, and
  two trains with their heads on one cell are both marked dead; a train is out of bounds
  when its head is outside the rectangle from 0 to the width and height, exclusive.
  Screen coordinates: \<open>UP\<close> decreases \<open>y\<close>.
\<close>

definition delta :: "direction \<Rightarrow> pos" where
  "delta d = (case d of UP \<Rightarrow> (0, - 1) | DOWN \<Rightarrow> (0, 1) | LEFT \<Rightarrow> (- 1, 0) | RIGHT \<Rightarrow> (1, 0))"

fun remove_passenger_at :: "pos \<Rightarrow> passenger list \<Rightarrow> passenger list" where
  "remove_passenger_at c [] = []"
| "remove_passenger_at c (p # ps) =
     (if p_position p = c then ps else p # remove_passenger_at c ps)"

definition Train_update :: "train \<Rightarrow> passenger list \<Rightarrow> int \<Rightarrow> train \<times> passenger list" where
  "Train_update t ps cell =
     (let d = (case pending t of Some d' \<Rightarrow> d' | None \<Rightarrow> direction t);
          head = (fst (position t) + fst (delta d) * cell,
                  snd (position t) + snd (delta d) * cell);
          body = (if wagons t = [] then [] else position t # butlast (wagons t));
          vacated = (if wagons t = [] then position t else last (wagons t));
          moved = t\<lparr>position := head, direction := d, pending := None, wagons := body\<rparr>
      in if list_ex (\<lambda>p. p_position p = head) ps
         then (moved\<lparr>wagons := body @ [vacated]\<rparr>, remove_passenger_at head ps)
         else (moved, ps))"

definition Train_change_direction :: "train \<Rightarrow> direction \<Rightarrow> train" where
  "Train_change_direction t new_direction = t\<lparr>pending := Some new_direction\<rparr>"

definition check_collisions :: "string \<Rightarrow> train \<Rightarrow> (string \<times> train) list
    \<Rightarrow> bool \<times> (string \<times> train) list" where
  "check_collisions name t all_trains =
     (let head = position t;
          on_head = list_ex (\<lambda>(n, u). n \<noteq> name \<and> position u = head) all_trains;
          on_wagon = list_ex (\<lambda>(n, u). head \<in> set (wagons u)) all_trains
      in if on_head \<or> on_wagon
         then (True, map (\<lambda>(n, u). if n = name \<or> position u = head
                                    then (n, u\<lparr>alive := False\<rparr>) else (n, u)) all_trains)
         else (False, all_trains))"

definition check_out_of_bounds :: "train \<Rightarrow> int \<Rightarrow> int \<Rightarrow> bool" where
  "check_out_of_bounds t width height =
     (case position t of (x, y) \<Rightarrow> \<not> (0 \<le> x \<and> x < width \<and> 0 \<le> y \<and> y < height))"

text \<open>
  The first loop of \<^verbatim>\<open>Game.update\<close>, over the names of the dictionary as they were
  when the loop began: each train moves and is then tested, one after the other, and
  the names of the dead are collected. A name with no entry cannot occur, since the
  loop changes no key.
\<close>

fun update_trains :: "string list \<Rightarrow> game \<Rightarrow> string list \<Rightarrow> game \<times> string list" where
  "update_trains [] g trains_to_remove = (g, trains_to_remove)"
| "update_trains (train_name # names) g trains_to_remove =
     (case map_of (trains g) train_name of
        None \<Rightarrow> update_trains names g trains_to_remove
      | Some t \<Rightarrow>
          (case Train_update t (passengers g) (grid_size g) of (t1, ps) \<Rightarrow>
           case check_collisions train_name t1 (AList.update train_name t1 (trains g)) of
             (collided, all_trains) \<Rightarrow>
               (let g1 = g\<lparr>trains := all_trains, passengers := ps\<rparr>;
                    died = (collided
                            \<or> check_out_of_bounds t1 (screen_width g1) (screen_height g1)
                            \<or> (case map_of all_trains train_name of
                                  None \<Rightarrow> False | Some t2 \<Rightarrow> \<not> alive t2))
                in update_trains names g1
                     (if died then trains_to_remove @ [train_name] else trains_to_remove))))"

definition update :: "game \<Rightarrow> game" where
  "update g =
     (if trains g = [] then g
      else (case update_trains (map fst (trains g)) g [] of
              (g1, trains_to_remove) \<Rightarrow> fold remove_train trains_to_remove g1))"

definition change_direction_of_train :: "string \<Rightarrow> direction \<Rightarrow> game \<Rightarrow> game" where
  "change_direction_of_train name new_direction g =
     (case map_of (trains g) name of
        None \<Rightarrow> g
      | Some t \<Rightarrow>
          g\<lparr>trains := AList.update name (Train_change_direction t new_direction) (trains g)\<rparr>)"

subsection \<open>Reachable engine states\<close>

text \<open>
  The states an engine reaches from its construction by calls of \<^verbatim>\<open>add_train\<close>,
  \<^verbatim>\<open>remove_train\<close> and \<^verbatim>\<open>update\<close>. A call of \<^verbatim>\<open>add_train\<close> that raises does so before it
  changes the engine. The random module owes the engine nothing: between two calls its
  outcomes to come may be any.
\<close>

inductive reachable :: "game \<Rightarrow> bool" where
  init: "reachable (Game tape)"
| add: "reachable g \<Longrightarrow> add_train d0 name g = Inr g' \<Longrightarrow> reachable g'"
| remove: "reachable g \<Longrightarrow> reachable (remove_train name g)"
| tick: "reachable g \<Longrightarrow> reachable (update g)"
| reseed: "reachable g \<Longrightarrow> reachable (g\<lparr>random_tape := tape\<rparr>)"

subsection \<open>What the specification says of two tests\<close>

text \<open>
  The spawn test as the specification words it: a candidate is unsafe near an edge, or
  when for a head or a wagon it is not the case that both axis distances exceed the
  safe distance.
\<close>

definition spec_position_unsafe :: "game \<Rightarrow> int \<Rightarrow> int \<Rightarrow> bool" where
  "spec_position_unsafe g x y =
     (x < safe_distance g \<or> y < safe_distance g
      \<or> x > screen_width g - safe_distance g \<or> y > screen_height g - safe_distance g
      \<or> list_ex (\<lambda>t. list_ex (\<lambda>(cx, cy). \<not> (\<bar>x - cx\<bar> > safe_distance g
                                                \<and> \<bar>y - cy\<bar> > safe_distance g))
                          (position t # wagons t))
                 (map snd (trains g)))"

text \<open>
  The shrinking test as the specification words it: no head and no wagon within
  \<^verbatim>\<open>screen_padding - 50\<close> of the right or of the bottom edge.
\<close>

definition spec_can_reduce_padding :: "game \<Rightarrow> bool" where
  "spec_can_reduce_padding g =
     (\<not> list_ex (\<lambda>t. list_ex (\<lambda>(x, y). x \<ge> screen_width g - (screen_padding g - 50)
                                        \<or> y \<ge> screen_height g - (screen_padding g - 50))
                          (position t # wagons t))
                 (map snd (trains g)))"

subsection \<open>Engines used as examples\<close>

text \<open>A world of 400 by 400 with the train \<open>A\<close> and one passenger.\<close>

definition one_train :: "int \<Rightarrow> int \<Rightarrow> pos list \<Rightarrow> game" where
  "one_train x y ws =
     (Game [])\<lparr>screen_width := 400, screen_height := 400,
               trains := [(''A'', (Train RIGHT x y ''A'')\<lparr>wagons := ws\<rparr>)],
               passengers := [\<lparr>p_position = (0, 0)\<rparr>]\<rparr>"

text \<open>
  The engine after \<^verbatim>\<open>add_train("A")\<close> and \<^verbatim>\<open>add_train("B")\<close> on a new engine, when
  the generator places \<open>A\<close> on the cell (3, 3) and \<open>B\<close> on the cell (7, 7).
\<close>

definition two_trains :: game where
  "two_trains =
     (Game [])\<lparr>screen_width := 400, screen_height := 400,
               trains := [(''A'', Train RIGHT 60 60 ''A''),
                          (''B'', Train RIGHT 140 140 ''B'')],
               passengers := [\<lparr>p_position = (0, 0)\<rparr>]\<rparr>"

text \<open>
  The engine after \<^verbatim>\<open>add_train("A")\<close> on a new engine whose generator returns its
  lowest outcomes: the train is on the cell (3, 3), and the passenger on (0, 0).
\<close>

definition first_train :: game where
  "first_train =
     (Game [])\<lparr>screen_width := 300, screen_height := 300,
               trains := [(''A'', Train RIGHT 60 60 ''A'')],
               passengers := [\<lparr>p_position = (0, 0)\<rparr>]\<rparr>"

text \<open>
  The train \<open>A\<close> on (60, 60) with one wagon, in a world of 400 by 400; the generator
  will return the cell (7, 7).
\<close>

definition wagon_train :: game where
  "wagon_train = (one_train 60 60 [(40, 60)])\<lparr>random_tape := [4, 4]\<rparr>"

text \<open>
  The engine after the train of \<open>first_train\<close> has been steered left for one tick and up
  for one tick, and \<^verbatim>\<open>remove_train\<close> has been called twice with a name that is not in
  the map: the world is 100 by 100.
\<close>

definition cornered_train :: game where
  "cornered_train =
     (Game [])\<lparr>screen_width := 100, screen_height := 100,
               trains := [(''A'', Train UP 40 40 ''A'')],
               passengers := [\<lparr>p_position = (0, 0)\<rparr>]\<rparr>"

text \<open>
  The two ranges of \<^verbatim>\<open>get_safe_spawn_position\<close> are not empty and the grid size is
  not zero.
\<close>

definition spawn_ranges :: "game \<Rightarrow> bool" where
  "spawn_ranges g =
     (grid_size g \<noteq> 0
      \<and> 2 * spawn_safe_zone g \<le> screen_width g div grid_size g
      \<and> 2 * spawn_safe_zone g \<le> screen_height g div grid_size g)"

subsection \<open>The invariant of the world size\<close>

text \<open>
  A train that has never been steered moves along one axis: its other coordinate is
  the one it was spawned with, which is at least the safe distance of 60.
\<close>

definition anchored :: "train \<Rightarrow> bool" where
  "anchored t =
     (pending t = None
      \<and> (case direction t of
            UP \<Rightarrow> 60 \<le> fst (position t)
          | DOWN \<Rightarrow> 60 \<le> fst (position t)
          | LEFT \<Rightarrow> 60 \<le> snd (position t)
          | RIGHT \<Rightarrow> 60 \<le> snd (position t)))"

text \<open>
  The constants are those of the constructor, the world is a square of side 200 plus a
  multiple of 100, and every train is as above.
\<close>

definition engine_inv :: "game \<Rightarrow> bool" where
  "engine_inv g =
     (grid_size g = 20 \<and> screen_padding g = 100 \<and> spawn_safe_zone g = 3
      \<and> screen_height g = screen_width g
      \<and> 200 \<le> screen_width g \<and> screen_width g mod 100 = 0
      \<and> list_all (\<lambda>p. anchored (snd p)) (trains g))"

subsection \<open>The lock\<close>

text \<open>
  What an operation does to the lock and to the shared state, in the order of the
  source: \<^verbatim>\<open>with self.lock\<close> is an \<open>Acquire\<close> and a \<open>Release\<close>, an assignment to a
  field of the engine, a change of the dictionary or of the passenger list, and a call
  that changes a train, is a \<open>Write\<close>.
\<close>

datatype shared = Trains_map | Train_fields | Passenger_list | World_bounds

datatype event = Acquire | Release | Write shared

text \<open>Every write of a trace happens while the lock is held.\<close>

fun writes_locked :: "bool \<Rightarrow> event list \<Rightarrow> bool" where
  "writes_locked held [] = True"
| "writes_locked held (Acquire # es) = writes_locked True es"
| "writes_locked held (Release # es) = writes_locked False es"
| "writes_locked held (Write s # es) = (held \<and> writes_locked held es)"

text \<open>One write of the passenger list for each append and each pop.\<close>

definition update_passengers_count_events :: "game \<Rightarrow> event list" where
  "update_passengers_count_events g =
     replicate (desired_passengers g - length (passengers g)) (Write Passenger_list)
     @ replicate (length (passengers g) - desired_passengers g) (Write Passenger_list)"

text \<open>
  \<^verbatim>\<open>add_train\<close>: the \<^verbatim>\<open>with\<close> block ends before \<^verbatim>\<open>update_screen_size\<close> is called; an
  exception of the spawn search leaves the block and releases the lock.
\<close>

definition add_train_events :: "direction \<Rightarrow> string \<Rightarrow> game \<Rightarrow> event list" where
  "add_train_events d0 name g =
     (case get_safe_spawn_position 100 g of
        Inl e \<Rightarrow> [Acquire, Release]
      | Inr ((start_x, start_y), g1) \<Rightarrow>
          [Acquire, Write Trains_map]
          @ update_passengers_count_events
              (g1\<lparr>trains := AList.update name (Train d0 start_x start_y name) (trains g1)\<rparr>)
          @ [Release, Write World_bounds, Write World_bounds])"

text \<open>\<^verbatim>\<open>remove_train\<close>: no \<^verbatim>\<open>with\<close> block.\<close>

definition remove_train_events :: "string \<Rightarrow> game \<Rightarrow> event list" where
  "remove_train_events name g =
     (let g1 = (if has_train g name
                then g\<lparr>trains := AList.delete name (trains g)\<rparr> else g);
          g2 = update_passengers_count g1
      in (if has_train g name then [Write Trains_map] else [])
         @ update_passengers_count_events g1
         @ (if length (trains g2) > 0
            then (if can_reduce_padding g2 then [Write World_bounds, Write World_bounds] else [])
            else [Write World_bounds, Write World_bounds, Write Passenger_list]))"

text \<open>
  \<^verbatim>\<open>update\<close>: one \<^verbatim>\<open>with\<close> block around both loops; a train that moves is written, and
  the passenger list is written when the train picks a passenger up.
\<close>

fun update_trains_events :: "string list \<Rightarrow> game \<Rightarrow> event list" where
  "update_trains_events [] g = []"
| "update_trains_events (train_name # names) g =
     (let g1 = fst (update_trains [train_name] g [])
      in (if has_train g train_name then [Write Train_fields] else [])
         @ (if passengers g1 \<noteq> passengers g then [Write Passenger_list] else [])
         @ update_trains_events names g1)"

fun remove_trains_events :: "string list \<Rightarrow> game \<Rightarrow> event list" where
  "remove_trains_events [] g = []"
| "remove_trains_events (train_name # names) g =
     remove_train_events train_name g @ remove_trains_events names (remove_train train_name g)"

definition update_events :: "game \<Rightarrow> event list" where
  "update_events g =
     (if trains g = [] then []
      else (case update_trains (map fst (trains g)) g [] of
              (g1, trains_to_remove) \<Rightarrow>
                [Acquire] @ update_trains_events (map fst (trains g)) g
                @ remove_trains_events trains_to_remove g1 @ [Release]))"

text \<open>\<^verbatim>\<open>change_direction_of_train\<close>: no \<^verbatim>\<open>with\<close> block.\<close>

definition change_direction_of_train_events :: "string \<Rightarrow> direction \<Rightarrow> game \<Rightarrow> event list" where
  "change_direction_of_train_events name new_direction g =
     (if has_train g name then [Write Train_fields] else [])"

definition only_writes :: "event list \<Rightarrow> bool" where
  "only_writes es = (Acquire \<notin> set es \<and> Release \<notin> set es)"

section \<open>Properties\<close>

lemmas engine_defs =
  Game_def Train_def safe_distance_def is_position_safe_def can_reduce_padding_def
  update_passengers_count_def desired_passengers_def Passenger_def draw_def
  add_passengers.simps pop_passengers.simps
  ORIGINAL_SCREEN_WIDTH_def ORIGINAL_SCREEN_HEIGHT_def remove_train_def has_train_def
  reduce_padding_def update_screen_size_def

lemmas tick_defs =
  update_def Train_update_def Train_change_direction_def check_collisions_def
  check_out_of_bounds_def change_direction_of_train_def delta_def

subsection \<open>The two tests as quantified statements\<close>

lemma wagon_too_close_iff:
  "wagon_too_close sd x y ws = (\<exists>c \<in> set ws. \<bar>fst c - x\<bar> < sd \<and> \<bar>snd c - y\<bar> < sd)"
  by (induction ws) auto

lemma trains_safe_iff:
  "trains_safe sd x y ts =
     (\<forall>t \<in> set ts. \<forall>c \<in> insert (position t) (set (wagons t)).
         \<not> (\<bar>fst c - x\<bar> < sd \<and> \<bar>snd c - y\<bar> < sd))"
  by (induction ts) (auto simp: wagon_too_close_iff split: prod.splits)

lemma wagon_blocks_iff:
  "wagon_blocks lx ly ws = (\<not> (\<forall>c \<in> set ws. fst c < lx \<and> snd c < ly))"
  by (induction ws) (auto simp: not_less)

lemma trains_clear_iff:
  "trains_clear lx ly ts =
     (\<forall>t \<in> set ts. \<forall>c \<in> insert (position t) (set (wagons t)). fst c < lx \<and> snd c < ly)"
  by (induction ts) (auto simp: wagon_blocks_iff not_le split: prod.splits)

text \<open>
  C5 (amended). \<^verbatim>\<open>is_position_safe(x, y)\<close> returns false exactly when the candidate is
  less than the safe distance from the left or top edge or more than the width or
  height minus the safe distance, or when for some head or wagon of a train both axis
  distances are smaller than the safe distance. One axis distance of at least the safe
  distance is enough for the candidate to be safe with respect to that head or wagon.
\<close>

theorem is_position_safe_unsafe_iff:
  "(\<not> is_position_safe g x y) =
     (x < safe_distance g \<or> y < safe_distance g
      \<or> x > screen_width g - safe_distance g \<or> y > screen_height g - safe_distance g
      \<or> (\<exists>t \<in> snd ` set (trains g). \<exists>c \<in> insert (position t) (set (wagons t)).
            \<bar>fst c - x\<bar> < safe_distance g \<and> \<bar>snd c - y\<bar> < safe_distance g))"
  unfolding is_position_safe_def by (simp add: trains_safe_iff)

theorem is_position_safe_unsafe_iff_witness:
  "\<not> is_position_safe (one_train 100 100 [(80, 100)]) 140 120"
  using is_position_safe_unsafe_iff [of "one_train 100 100 [(80, 100)]" 140 120]
  by (simp add: engine_defs one_train_def)

text \<open>
  C5 as claimed fails: with a train head on (100, 100) the candidate (100, 300) has
  the same \<open>x\<close> as the head, so the words of the specification call it unsafe, and
  \<^verbatim>\<open>is_position_safe\<close> returns true.
\<close>

theorem is_position_safe_claim_counterexample:
  "is_position_safe (one_train 100 100 []) 100 300
   \<and> spec_position_unsafe (one_train 100 100 []) 100 300"
  by (simp add: engine_defs one_train_def spec_position_unsafe_def)

text \<open>
  C6 (amended). \<^verbatim>\<open>can_reduce_padding\<close> returns false if and only if some head or
  wagon has \<open>x\<close> at least the width minus \<^verbatim>\<open>screen_padding + 50\<close>, or \<open>y\<close> at least
  the height minus \<^verbatim>\<open>screen_padding + 50\<close>; the left and top edges are not looked at.
\<close>

theorem can_reduce_padding_false_iff:
  "(\<not> can_reduce_padding g) =
     (\<exists>t \<in> snd ` set (trains g). \<exists>c \<in> insert (position t) (set (wagons t)).
         fst c \<ge> screen_width g - (screen_padding g + 50)
       \<or> snd c \<ge> screen_height g - (screen_padding g + 50))"
  unfolding can_reduce_padding_def
  by (simp add: trains_clear_iff diff_diff_eq) (meson not_less)

theorem can_reduce_padding_false_iff_witness:
  "\<not> can_reduce_padding (one_train 60 60 [(60, 260)])"
  using can_reduce_padding_false_iff [of "one_train 60 60 [(60, 260)]"]
  by (simp add: engine_defs one_train_def)

text \<open>
  C6 as claimed fails: in a world of 400 by 400 a head on (260, 60) is 140 away from
  the right edge, more than \<^verbatim>\<open>screen_padding - 50\<close>, and \<^verbatim>\<open>can_reduce_padding\<close>
  returns false.
\<close>

theorem can_reduce_padding_claim_counterexample:
  "\<not> can_reduce_padding (one_train 260 60 [])
   \<and> spec_can_reduce_padding (one_train 260 60 [])"
  by (simp add: engine_defs one_train_def spec_can_reduce_padding_def)

subsection \<open>The passenger count\<close>

lemma Passenger_shape: "\<exists>p tp. Passenger g = (p, g\<lparr>random_tape := tp\<rparr>)"
proof (cases "random_tape g")
  case Nil
  then have "g\<lparr>random_tape := []\<rparr> = g" by simp
  with Nil show ?thesis by (auto simp: Passenger_def draw_def intro: exI[of _ "[]"])
next
  case (Cons r rs)
  then show ?thesis by (cases rs) (auto simp: Passenger_def draw_def)
qed

lemma add_passengers_shape:
  "\<exists>new tp. add_passengers d g = g\<lparr>passengers := passengers g @ new, random_tape := tp\<rparr>
           \<and> length (passengers g @ new) = max d (length (passengers g))"
proof (induction d g rule: add_passengers.induct)
  case (1 d g)
  show ?case
  proof (cases "length (passengers g) < d")
    case True
    obtain p tp where pg: "Passenger g = (p, g\<lparr>random_tape := tp\<rparr>)"
      using Passenger_shape by blast
    let ?g = "g\<lparr>random_tape := tp\<rparr>\<lparr>passengers := passengers (g\<lparr>random_tape := tp\<rparr>) @ [p]\<rparr>"
    from "1.IH" [OF True pg [symmetric]] obtain new tp'
      where step: "add_passengers d ?g = ?g\<lparr>passengers := passengers ?g @ new, random_tape := tp'\<rparr>"
        and len: "length (passengers ?g @ new) = max d (length (passengers ?g))"
      by blast
    have "add_passengers d g = g\<lparr>passengers := passengers g @ (p # new), random_tape := tp'\<rparr>"
      using True pg step by (simp add: add_passengers.simps [of d g])
    moreover have "length (passengers g @ (p # new)) = max d (length (passengers g))"
      using True len by simp
    ultimately show ?thesis by blast
  next
    case False
    then have "add_passengers d g = g\<lparr>passengers := passengers g @ [], random_tape := random_tape g\<rparr>"
      by (simp add: add_passengers.simps [of d g])
    moreover have "length (passengers g @ []) = max d (length (passengers g))"
      using False by simp
    ultimately show ?thesis by blast
  qed
qed

lemma add_passengers_enough:
  "\<not> length (passengers g) < d \<Longrightarrow> add_passengers d g = g"
  by (simp add: add_passengers.simps [of d g])

lemma pop_passengers_eq:
  "pop_passengers d g = g\<lparr>passengers := take d (passengers g)\<rparr>"
proof (induction d g rule: pop_passengers.induct)
  case (1 d g)
  show ?case
  proof (cases "length (passengers g) > d")
    case True
    then have "take d (butlast (passengers g)) = take d (passengers g)"
      by (simp add: butlast_conv_take)
    with True "1.IH" [OF True] show ?thesis
      by (simp add: pop_passengers.simps [of d g])
  next
    case False
    then show ?thesis by (simp add: pop_passengers.simps [of d g])
  qed
qed

lemma update_passengers_count_shape:
  "\<exists>ps tp. update_passengers_count g = g\<lparr>passengers := ps, random_tape := tp\<rparr>
          \<and> length ps = desired_passengers g"
proof -
  obtain new tp
    where a: "add_passengers (desired_passengers g) g
                = g\<lparr>passengers := passengers g @ new, random_tape := tp\<rparr>"
      and l: "length (passengers g @ new) = max (desired_passengers g) (length (passengers g))"
    using add_passengers_shape by blast
  have "update_passengers_count g
          = g\<lparr>passengers := take (desired_passengers g) (passengers g @ new), random_tape := tp\<rparr>"
    by (simp add: update_passengers_count_def a pop_passengers_eq)
  moreover have "length (take (desired_passengers g) (passengers g @ new)) = desired_passengers g"
    using l by simp
  ultimately show ?thesis by blast
qed

lemma update_passengers_count_fields [simp]:
  "trains (update_passengers_count g) = trains g"
  "screen_width (update_passengers_count g) = screen_width g"
  "screen_height (update_passengers_count g) = screen_height g"
  "grid_size (update_passengers_count g) = grid_size g"
  "screen_padding (update_passengers_count g) = screen_padding g"
  "spawn_safe_zone (update_passengers_count g) = spawn_safe_zone g"
  "running (update_passengers_count g) = running g"
  using update_passengers_count_shape [of g] by auto

lemma update_passengers_count_length:
  "length (passengers (update_passengers_count g)) = desired_passengers g"
  using update_passengers_count_shape [of g] by auto

text \<open>
  C7. After \<^verbatim>\<open>update_passengers_count\<close> the passenger list has
  \<^verbatim>\<open>max(1, floor(trainCount * 0.5))\<close> elements; a list that was longer keeps its front
  and loses its tail, and a list that was not longer is extended at its end.
\<close>

theorem update_passengers_count_spec:
  "length (passengers (update_passengers_count g)) = max 1 (length (trains g) div 2)
   \<and> (max 1 (length (trains g) div 2) < length (passengers g) \<longrightarrow>
        passengers (update_passengers_count g)
          = take (max 1 (length (trains g) div 2)) (passengers g))
   \<and> (length (passengers g) \<le> max 1 (length (trains g) div 2) \<longrightarrow>
        (\<exists>new. passengers (update_passengers_count g) = passengers g @ new))"
proof (intro conjI impI)
  show "length (passengers (update_passengers_count g)) = max 1 (length (trains g) div 2)"
    using update_passengers_count_length [of g] by (simp add: desired_passengers_def)
next
  assume "max 1 (length (trains g) div 2) < length (passengers g)"
  then have "add_passengers (desired_passengers g) g = g"
    by (intro add_passengers_enough) (auto simp: desired_passengers_def)
  then show "passengers (update_passengers_count g)
          = take (max 1 (length (trains g) div 2)) (passengers g)"
    by (simp add: update_passengers_count_def pop_passengers_eq desired_passengers_def)
next
  assume le: "length (passengers g) \<le> max 1 (length (trains g) div 2)"
  obtain new tp
    where a: "add_passengers (desired_passengers g) g
                = g\<lparr>passengers := passengers g @ new, random_tape := tp\<rparr>"
      and l: "length (passengers g @ new) = max (desired_passengers g) (length (passengers g))"
    using add_passengers_shape by blast
  from le l have "length (passengers g @ new) = desired_passengers g"
    by (simp add: desired_passengers_def)
  then have "passengers (update_passengers_count g) = passengers g @ new"
    by (simp add: update_passengers_count_def a pop_passengers_eq)
  then show "\<exists>new. passengers (update_passengers_count g) = passengers g @ new" ..
qed

theorem update_passengers_count_spec_witness:
  "passengers (update_passengers_count
      (two_trains\<lparr>passengers := [\<lparr>p_position = (0, 0)\<rparr>, \<lparr>p_position = (20, 40)\<rparr>]\<rparr>))
     = [\<lparr>p_position = (0, 0)\<rparr>]
   \<and> length (passengers (update_passengers_count (two_trains\<lparr>passengers := []\<rparr>))) = 1"
  using update_passengers_count_spec
          [of "two_trains\<lparr>passengers := [\<lparr>p_position = (0, 0)\<rparr>, \<lparr>p_position = (20, 40)\<rparr>]\<rparr>"]
        update_passengers_count_spec [of "two_trains\<lparr>passengers := []\<rparr>"]
  by (simp add: two_trains_def Game_def)

subsection \<open>Spawning succeeds when the ranges are not empty\<close>

lemma draw_tape: "\<exists>tp. snd (draw g) = g\<lparr>random_tape := tp\<rparr>"
  by (cases "random_tape g") (auto simp: draw_def intro: exI [of _ "[]"])

lemma randint_Inr:
  assumes "a \<le> b"
  shows "\<exists>r tp. randint a b g = Inr (r, g\<lparr>random_tape := tp\<rparr>) \<and> a \<le> r \<and> r \<le> b"
proof -
  obtain k g' where d: "draw g = (k, g')" by (cases "draw g")
  with draw_tape [of g] obtain tp where tp: "g' = g\<lparr>random_tape := tp\<rparr>" by auto
  have "0 < b - a + 1" using assms by simp
  then have "0 \<le> int k mod (b - a + 1)" "int k mod (b - a + 1) < b - a + 1"
    by (rule pos_mod_sign, rule pos_mod_bound)
  then show ?thesis using assms d tp by (auto simp: randint_def)
qed

lemma randint_Inl: "b < a \<Longrightarrow> randint a b g = Inl ValueError"
  by (simp add: randint_def)

lemma is_position_safe_tape [simp]:
  "is_position_safe (g\<lparr>random_tape := tp\<rparr>) x y = is_position_safe g x y"
  by (simp add: is_position_safe_def safe_distance_def)

lemma spawn_ranges_tape [simp]: "spawn_ranges (g\<lparr>random_tape := tp\<rparr>) = spawn_ranges g"
  by (simp add: spawn_ranges_def)

lemma spawn_attempts_100: "spawn_attempts 100 g = spawn_attempts (Suc 99) g"
  by simp

lemma spawn_attempts_Inr:
  "spawn_ranges g \<Longrightarrow>
     \<exists>r tp. spawn_attempts n g = Inr (r, g\<lparr>random_tape := tp\<rparr>)
          \<and> (\<forall>x y. r = Some (x, y) \<longrightarrow> is_position_safe g x y)"
proof (induction n arbitrary: g)
  case 0
  have "g = g\<lparr>random_tape := random_tape g\<rparr>" by simp
  then show ?case by (metis spawn_attempts.simps(1) option.distinct(1))
next
  case (Suc n)
  let ?z = "spawn_safe_zone g"
  from Suc.prems have gs: "grid_size g \<noteq> 0"
    and rx: "?z \<le> screen_width g div grid_size g - ?z"
    and ry: "?z \<le> screen_height g div grid_size g - ?z"
    by (simp_all add: spawn_ranges_def)
  from randint_Inr [OF rx, of g] obtain x t1
    where x: "randint ?z (screen_width g div grid_size g - ?z) g
                = Inr (x, g\<lparr>random_tape := t1\<rparr>)"
    by blast
  let ?g1 = "g\<lparr>random_tape := t1\<rparr>"
  from randint_Inr [OF ry, of ?g1] obtain y t2
    where y: "randint ?z (screen_height g div grid_size g - ?z) ?g1
                = Inr (y, g\<lparr>random_tape := t2\<rparr>)"
    by auto
  let ?g2 = "g\<lparr>random_tape := t2\<rparr>"
  show ?case
  proof (cases "is_position_safe g (x * grid_size g) (y * grid_size g)")
    case True
    with gs x y show ?thesis by (auto simp: floordiv_def Let_def)
  next
    case False
    from Suc.prems have "spawn_ranges ?g2" by simp
    from Suc.IH [OF this] obtain r tp
      where r: "spawn_attempts n ?g2 = Inr (r, g\<lparr>random_tape := tp\<rparr>)"
        and safe: "\<forall>x y. r = Some (x, y) \<longrightarrow> is_position_safe g x y"
      by auto
    with False gs x y show ?thesis by (auto simp: floordiv_def Let_def)
  qed
qed

lemma get_safe_spawn_position_Inr:
  assumes "spawn_ranges g"
  shows "\<exists>x y tp. get_safe_spawn_position n g = Inr ((x, y), g\<lparr>random_tape := tp\<rparr>)
           \<and> (is_position_safe g x y
               \<or> (x = screen_width g div 2 div grid_size g * grid_size g
                  \<and> y = screen_height g div 2 div grid_size g * grid_size g))"
proof -
  from spawn_attempts_Inr [OF assms, of n] obtain r tp
    where r: "spawn_attempts n g = Inr (r, g\<lparr>random_tape := tp\<rparr>)"
      and safe: "\<forall>x y. r = Some (x, y) \<longrightarrow> is_position_safe g x y"
    by blast
  from assms have gs: "grid_size g \<noteq> 0" by (simp add: spawn_ranges_def)
  show ?thesis
  proof (cases r)
    case None
    with r gs show ?thesis by (auto simp: get_safe_spawn_position_def floordiv_def)
  next
    case (Some p)
    with r safe show ?thesis by (cases p) (auto simp: get_safe_spawn_position_def)
  qed
qed

lemma add_train_Inr:
  assumes "spawn_ranges g"
  shows "\<exists>x y tp. add_train d0 name g =
            Inr (update_screen_size (update_passengers_count
                  (g\<lparr>random_tape := tp,
                     trains := AList.update name (Train d0 x y name) (trains g)\<rparr>)))
           \<and> (is_position_safe g x y
               \<or> (x = screen_width g div 2 div grid_size g * grid_size g
                  \<and> y = screen_height g div 2 div grid_size g * grid_size g))"
proof -
  from get_safe_spawn_position_Inr [OF assms, of 100] obtain x y tp
    where "get_safe_spawn_position 100 g = Inr ((x, y), g\<lparr>random_tape := tp\<rparr>)"
      and "is_position_safe g x y
               \<or> (x = screen_width g div 2 div grid_size g * grid_size g
                  \<and> y = screen_height g div 2 div grid_size g * grid_size g)"
    by blast
  then show ?thesis by (auto simp: add_train_def)
qed

text \<open>An empty range of \<open>x\<close> cells: the first call of the generator raises.\<close>

lemma spawn_attempts_Inl:
  assumes "grid_size g \<noteq> 0"
    and "screen_width g div grid_size g - spawn_safe_zone g < spawn_safe_zone g"
  shows "spawn_attempts (Suc n) g = Inl ValueError"
  using assms by (simp add: floordiv_def randint_Inl)

lemma add_train_Inl:
  assumes "grid_size g \<noteq> 0"
    and "screen_width g div grid_size g - spawn_safe_zone g < spawn_safe_zone g"
  shows "add_train d0 name g = Inl ValueError"
  by (simp only: add_train_def get_safe_spawn_position_def spawn_attempts_100
        spawn_attempts_Inl [OF assms] sum.case)

lemma update_screen_size_fields [simp]:
  "trains (update_screen_size g) = trains g"
  "passengers (update_screen_size g) = passengers g"
  "screen_width (update_screen_size g) = screen_width g + screen_padding g"
  "screen_height (update_screen_size g) = screen_height g + screen_padding g"
  "grid_size (update_screen_size g) = grid_size g"
  "screen_padding (update_screen_size g) = screen_padding g"
  "spawn_safe_zone (update_screen_size g) = spawn_safe_zone g"
  by (simp_all add: update_screen_size_def)

text \<open>
  C8. On an engine with no trains, whose spawn ranges are not empty (a new engine, or
  one whose last train has been removed, is 200 by 200), \<^verbatim>\<open>add_train("A")\<close> returns,
  the train map then holds the one key \<open>A\<close>, there is one passenger, and the width and
  the height have each grown by \<^verbatim>\<open>screen_padding\<close>.
\<close>

theorem add_train_first:
  assumes "trains g = []" and "spawn_ranges g"
  shows "\<exists>g'. add_train d0 ''A'' g = Inr g'
           \<and> map fst (trains g') = [''A'']
           \<and> length (passengers g') = 1
           \<and> screen_width g' = screen_width g + screen_padding g
           \<and> screen_height g' = screen_height g + screen_padding g"
proof -
  from add_train_Inr [OF assms(2), of d0 "''A''"] obtain x y tp
    where "add_train d0 ''A'' g =
            Inr (update_screen_size (update_passengers_count
                  (g\<lparr>random_tape := tp,
                     trains := AList.update ''A'' (Train d0 x y ''A'') (trains g)\<rparr>)))"
    by blast
  with assms(1) show ?thesis
    by (simp add: update_passengers_count_length desired_passengers_def)
qed

theorem add_train_first_witness:
  "trains (Game []) = [] \<and> spawn_ranges (Game [])
   \<and> (\<exists>g'. add_train RIGHT ''A'' (Game []) = Inr g'
           \<and> map fst (trains g') = [''A'']
           \<and> length (passengers g') = 1
           \<and> screen_width g' = 300 \<and> screen_height g' = 300)"
  using add_train_first [of "Game []" RIGHT]
  by (simp add: engine_defs spawn_ranges_def)

subsection \<open>Removing\<close>

text \<open>
  C9. When the train map holds one train, \<^verbatim>\<open>remove_train\<close> of its name leaves the
  map empty, empties the passenger list and sets the width and the height to the
  original dimensions, whatever they were.
\<close>

theorem remove_last_train:
  assumes "map fst (trains g) = [name]"
  shows "trains (remove_train name g) = []
         \<and> passengers (remove_train name g) = []
         \<and> screen_width (remove_train name g) = ORIGINAL_SCREEN_WIDTH
         \<and> screen_height (remove_train name g) = ORIGINAL_SCREEN_HEIGHT"
proof -
  from assms obtain t where t: "trains g = [(name, t)]" by (cases "trains g") auto
  then show ?thesis by (simp add: remove_train_def has_train_def Let_def)
qed

theorem remove_last_train_witness:
  "map fst (trains (one_train 100 100 [(80, 100)])) = [''A'']
   \<and> trains (remove_train ''A'' (one_train 100 100 [(80, 100)])) = []
   \<and> passengers (remove_train ''A'' (one_train 100 100 [(80, 100)])) = []
   \<and> screen_width (remove_train ''A'' (one_train 100 100 [(80, 100)])) = 200
   \<and> screen_height (remove_train ''A'' (one_train 100 100 [(80, 100)])) = 200"
  using remove_last_train [of "one_train 100 100 [(80, 100)]" "''A''"]
  by (simp add: one_train_def ORIGINAL_SCREEN_WIDTH_def ORIGINAL_SCREEN_HEIGHT_def)

lemma can_reduce_padding_cong:
  "trains g' = trains g \<Longrightarrow> screen_width g' = screen_width g \<Longrightarrow>
   screen_height g' = screen_height g \<Longrightarrow> screen_padding g' = screen_padding g \<Longrightarrow>
   can_reduce_padding g' = can_reduce_padding g"
  by (simp add: can_reduce_padding_def)

text \<open>
  C2 (amended). For a name that is not in the train map, \<^verbatim>\<open>remove_train\<close> raises
  nothing and leaves the train map as it was, and it still does the rest of its work:
  with no train in the map the passenger list is emptied and the width and height are
  set to the original dimensions; with trains in the map the passenger list is brought
  to the desired count, and the width and height shrink by \<^verbatim>\<open>screen_padding\<close> when
  \<^verbatim>\<open>can_reduce_padding\<close> holds and are unchanged when it does not.
\<close>

theorem remove_absent_train:
  assumes "\<not> has_train g name"
  shows "trains (remove_train name g) = trains g
         \<and> (trains g = [] \<longrightarrow>
               passengers (remove_train name g) = []
             \<and> screen_width (remove_train name g) = ORIGINAL_SCREEN_WIDTH
             \<and> screen_height (remove_train name g) = ORIGINAL_SCREEN_HEIGHT)
         \<and> (trains g \<noteq> [] \<longrightarrow>
               passengers (remove_train name g) = passengers (update_passengers_count g)
             \<and> (can_reduce_padding g \<longrightarrow>
                   screen_width (remove_train name g) = screen_width g - screen_padding g
                 \<and> screen_height (remove_train name g) = screen_height g - screen_padding g)
             \<and> (\<not> can_reduce_padding g \<longrightarrow>
                   screen_width (remove_train name g) = screen_width g
                 \<and> screen_height (remove_train name g) = screen_height g))"
proof -
  have c: "can_reduce_padding (update_passengers_count g) = can_reduce_padding g"
    by (rule can_reduce_padding_cong) simp_all
  show ?thesis using assms
    by (auto simp: remove_train_def Let_def c reduce_padding_def)
qed

theorem remove_absent_train_witness:
  "\<not> has_train two_trains ''Z''
   \<and> trains (remove_train ''Z'' two_trains) = trains two_trains
   \<and> passengers (remove_train ''Z'' two_trains) = passengers two_trains
   \<and> screen_width (remove_train ''Z'' two_trains) = 300
   \<and> screen_height (remove_train ''Z'' two_trains) = 300"
  using remove_absent_train [of two_trains "''Z''"]
  by (simp add: engine_defs two_trains_def)

text \<open>
  C2 as claimed fails: with the trains \<open>A\<close> and \<open>B\<close> in a world of 400 by 400,
  \<^verbatim>\<open>remove_train("Z")\<close> shrinks the world to 300 by 300.
\<close>

theorem remove_absent_train_counterexample:
  "\<not> has_train two_trains ''Z''
   \<and> screen_width two_trains = 400 \<and> screen_height two_trains = 400
   \<and> screen_width (remove_train ''Z'' two_trains) = 300
   \<and> screen_height (remove_train ''Z'' two_trains) = 300"
  by (simp add: engine_defs two_trains_def)

subsection \<open>Adding a name that is present\<close>

text \<open>
  C4 (amended). When the name is in the train map and the spawn ranges are not empty,
  \<^verbatim>\<open>add_train\<close> returns without an error and replaces the train of that name, at its
  place in the map, by a new train on a new spawn position with no wagons; the keys
  and the other trains are unchanged, and the width and the height grow by
  \<^verbatim>\<open>screen_padding\<close>.
\<close>

theorem add_train_present:
  assumes "has_train g name" and "spawn_ranges g"
  shows "\<exists>g' x y. add_train d0 name g = Inr g'
           \<and> trains g' = AList.update name (Train d0 x y name) (trains g)
           \<and> map fst (trains g') = map fst (trains g)
           \<and> map_of (trains g') name = Some (Train d0 x y name)
           \<and> wagons (Train d0 x y name) = []
           \<and> (\<forall>n. n \<noteq> name \<longrightarrow> map_of (trains g') n = map_of (trains g) n)
           \<and> screen_width g' = screen_width g + screen_padding g
           \<and> screen_height g' = screen_height g + screen_padding g"
proof -
  from add_train_Inr [OF assms(2), of d0 name] obtain x y tp
    where "add_train d0 name g =
            Inr (update_screen_size (update_passengers_count
                  (g\<lparr>random_tape := tp,
                     trains := AList.update name (Train d0 x y name) (trains g)\<rparr>)))"
    by blast
  moreover from assms(1)
  have "map fst (AList.update name (Train d0 x y name) (trains g)) = map fst (trains g)"
    by (simp add: update_keys has_train_def)
  ultimately show ?thesis
    by (simp add: update_conv' Train_def)
qed

theorem add_train_present_witness:
  "has_train wagon_train ''A'' \<and> spawn_ranges wagon_train
   \<and> (\<exists>g'. add_train RIGHT ''A'' wagon_train = Inr g'
          \<and> trains g' = [(''A'', Train RIGHT 140 140 ''A'')]
          \<and> screen_width g' = 500 \<and> screen_height g' = 500)"
  using add_train_present [of wagon_train "''A''" RIGHT]
  by (simp only: add_train_def get_safe_spawn_position_def spawn_attempts_100
        spawn_attempts.simps)
     (simp add: engine_defs wagon_train_def one_train_def spawn_ranges_def floordiv_def
        randint_def)

text \<open>
  C4 as claimed fails: the train \<open>A\<close> on (60, 60) with the wagon (40, 60) is replaced
  by a train on (140, 140) with no wagon, and the world grows from 400 to 500.
\<close>

theorem add_train_present_counterexample:
  "has_train wagon_train ''A''
   \<and> trains wagon_train = [(''A'', (Train RIGHT 60 60 ''A'')\<lparr>wagons := [(40, 60)]\<rparr>)]
   \<and> screen_width wagon_train = 400
   \<and> add_train RIGHT ''A'' wagon_train
       = Inr (wagon_train\<lparr>trains := [(''A'', Train RIGHT 140 140 ''A'')],
                          screen_width := 500, screen_height := 500,
                          random_tape := []\<rparr>)"
  by (simp only: add_train_def get_safe_spawn_position_def spawn_attempts_100
        spawn_attempts.simps)
     (simp add: engine_defs wagon_train_def one_train_def floordiv_def randint_def)

subsection \<open>The world never shrinks below its original size\<close>

lemma engine_inv_init: "engine_inv (Game tape)"
  by (simp add: engine_inv_def Game_def ORIGINAL_SCREEN_WIDTH_def ORIGINAL_SCREEN_HEIGHT_def)

lemma engine_inv_spawn_ranges: "engine_inv g \<Longrightarrow> spawn_ranges g"
  by (auto simp: engine_inv_def spawn_ranges_def)

lemma list_all_update:
  "P (k, v) \<Longrightarrow> list_all P al \<Longrightarrow> list_all P (AList.update k v al)"
  by (induction al) auto

lemma list_all_delete: "list_all P al \<Longrightarrow> list_all P (AList.delete k al)"
  by (induction al) auto

lemma anchored_Train: "60 \<le> x \<Longrightarrow> 60 \<le> y \<Longrightarrow> anchored (Train d0 x y name)"
  by (cases d0) (simp_all add: anchored_def Train_def)

lemma engine_inv_passengers_tape [simp]:
  "engine_inv (g\<lparr>passengers := ps\<rparr>) = engine_inv g"
  "engine_inv (g\<lparr>random_tape := tp\<rparr>) = engine_inv g"
  by (simp_all add: engine_inv_def)

lemma engine_inv_update_passengers_count [simp]:
  "engine_inv (update_passengers_count g) = engine_inv g"
  using update_passengers_count_shape [of g] by auto

lemma engine_inv_add_train:
  assumes inv: "engine_inv g" and add: "add_train d0 name g = Inr g'"
  shows "engine_inv g'"
proof -
  from add_train_Inr [OF engine_inv_spawn_ranges [OF inv], of d0 name] add
  obtain x y tp
    where g': "g' = update_screen_size (update_passengers_count
                  (g\<lparr>random_tape := tp,
                     trains := AList.update name (Train d0 x y name) (trains g)\<rparr>))"
      and xy: "is_position_safe g x y
               \<or> (x = screen_width g div 2 div grid_size g * grid_size g
                  \<and> y = screen_height g div 2 div grid_size g * grid_size g)"
    by auto
  from inv have w: "200 \<le> screen_width g" "screen_height g = screen_width g"
    "grid_size g = 20" "spawn_safe_zone g = 3"
    by (simp_all add: engine_inv_def)
  have "60 \<le> x \<and> 60 \<le> y"
    using xy
  proof
    assume "is_position_safe g x y"
    then show ?thesis using w
      by (simp add: is_position_safe_def safe_distance_def split: if_splits)
  next
    assume c: "x = screen_width g div 2 div grid_size g * grid_size g
                  \<and> y = screen_height g div 2 div grid_size g * grid_size g"
    from w have "5 \<le> screen_width g div 2 div 20" by linarith
    then show ?thesis using c w by simp
  qed
  then have "anchored (Train d0 x y name)" by (simp add: anchored_Train)
  with inv have "list_all (\<lambda>p. anchored (snd p)) (AList.update name (Train d0 x y name) (trains g))"
    by (intro list_all_update) (simp_all add: engine_inv_def)
  with inv show ?thesis
    unfolding g' by (simp add: engine_inv_def update_screen_size_def)
qed

lemma shrink_keeps_minimum:
  assumes inv: "engine_inv g" and ne: "trains g \<noteq> []" and red: "can_reduce_padding g"
  shows "300 \<le> screen_width g"
proof -
  from ne obtain n t rest where ts: "trains g = (n, t) # rest" by (cases "trains g") auto
  with inv have a: "anchored t" by (simp add: engine_inv_def)
  from inv have c: "screen_padding g = 100" "screen_height g = screen_width g"
    "screen_width g mod 100 = 0" by (simp_all add: engine_inv_def)
  from red ts c have "fst (position t) < screen_width g - 150"
    "snd (position t) < screen_width g - 150"
    by (auto simp: can_reduce_padding_def split: prod.splits if_splits)
  moreover from a have "60 \<le> fst (position t) \<or> 60 \<le> snd (position t)"
    by (cases "direction t") (simp_all add: anchored_def)
  ultimately have "210 < screen_width g" by linarith
  with c(3) show ?thesis by presburger
qed

lemma engine_inv_remove_train:
  assumes inv: "engine_inv g"
  shows "engine_inv (remove_train name g)"
proof -
  let ?g1 = "if has_train g name then g\<lparr>trains := AList.delete name (trains g)\<rparr> else g"
  let ?g2 = "update_passengers_count ?g1"
  from inv have "engine_inv ?g1"
    by (simp add: engine_inv_def list_all_delete)
  then have inv2: "engine_inv ?g2" by simp
  show ?thesis
  proof (cases "trains ?g2 = []")
    case True
    with inv2 have "engine_inv (?g2\<lparr>screen_width := ORIGINAL_SCREEN_WIDTH,
                 screen_height := ORIGINAL_SCREEN_HEIGHT, passengers := []\<rparr>)"
      by (simp add: engine_inv_def ORIGINAL_SCREEN_WIDTH_def ORIGINAL_SCREEN_HEIGHT_def)
    with True show ?thesis by (simp add: remove_train_def Let_def)
  next
    case False
    show ?thesis
    proof (cases "can_reduce_padding ?g2")
      case True
      from shrink_keeps_minimum [OF inv2 False True] have "300 \<le> screen_width ?g2" .
      with inv2 True have "engine_inv (reduce_padding ?g2)"
        by (simp add: engine_inv_def reduce_padding_def mod_diff_eq)
      with True False show ?thesis by (simp add: remove_train_def Let_def)
    next
      case nored: False
      with False inv2 show ?thesis by (simp add: remove_train_def Let_def)
    qed
  qed
qed

lemma engine_inv_fold_remove:
  "engine_inv g \<Longrightarrow> engine_inv (fold remove_train names g)"
  by (induction names arbitrary: g) (simp_all add: engine_inv_remove_train)

lemma anchored_Train_update:
  assumes "anchored t" and "Train_update t ps cell = (t', ps')"
  shows "anchored t'"
  using assms
  by (cases "direction t")
     (auto simp: anchored_def Train_update_def Let_def delta_def split: if_splits)

lemma anchored_alive [simp]: "anchored (t\<lparr>alive := b\<rparr>) = anchored t"
  by (simp add: anchored_def split: direction.splits)

lemma list_all_mark_dead:
  "list_all (\<lambda>p. anchored (snd p))
     (map (\<lambda>(n, u). if c n u then (n, u\<lparr>alive := False\<rparr>) else (n, u)) al)
   = list_all (\<lambda>p. anchored (snd p)) al"
  by (induction al) (auto split: if_splits)

lemma check_collisions_anchored:
  assumes "check_collisions name t al = (c, al')"
    and "list_all (\<lambda>p. anchored (snd p)) al"
  shows "list_all (\<lambda>p. anchored (snd p)) al'"
proof (cases c)
  case True
  with assms(1)
  have "al' = map (\<lambda>(n, u). if n = name \<or> position u = position t
                              then (n, u\<lparr>alive := False\<rparr>) else (n, u)) al"
    by (auto simp: check_collisions_def Let_def split: if_splits)
  with assms(2) show ?thesis by (simp only: list_all_mark_dead)
next
  case False
  with assms(1) have "al' = al"
    by (auto simp: check_collisions_def Let_def split: if_splits)
  with assms(2) show ?thesis by simp
qed

lemma engine_inv_update_trains:
  "engine_inv g \<Longrightarrow> update_trains names g dead = (g1, dead') \<Longrightarrow> engine_inv g1"
proof (induction names arbitrary: g dead)
  case Nil
  then show ?case by simp
next
  case (Cons name names)
  show ?case
  proof (cases "map_of (trains g) name")
    case None
    with Cons show ?thesis by simp
  next
    case (Some t)
    obtain t1 ps where tu: "Train_update t (passengers g) (grid_size g) = (t1, ps)"
      by (cases "Train_update t (passengers g) (grid_size g)")
    obtain c al where cc: "check_collisions name t1 (AList.update name t1 (trains g)) = (c, al)"
      by (cases "check_collisions name t1 (AList.update name t1 (trains g))")
    let ?g1 = "g\<lparr>trains := al, passengers := ps\<rparr>"
    from Some have "(name, t) \<in> set (trains g)" by (rule map_of_SomeD)
    with Cons.prems(1) have "anchored t" by (auto simp: engine_inv_def list_all_iff)
    with tu have "anchored t1" by (rule anchored_Train_update [rotated])
    with Cons.prems(1)
    have "list_all (\<lambda>p. anchored (snd p)) (AList.update name t1 (trains g))"
      by (intro list_all_update) (simp_all add: engine_inv_def)
    with cc have "list_all (\<lambda>p. anchored (snd p)) al" by (rule check_collisions_anchored)
    with Cons.prems(1) have inv1: "engine_inv ?g1" by (simp add: engine_inv_def)
    from Cons.prems(2) Some tu cc obtain dead1
      where "update_trains names ?g1 dead1 = (g1, dead')"
      by (simp add: Let_def split: if_splits)
    with inv1 show ?thesis by (rule Cons.IH)
  qed
qed

lemma engine_inv_update: "engine_inv g \<Longrightarrow> engine_inv (update g)"
  by (auto simp: update_def engine_inv_update_trains engine_inv_fold_remove
           split: prod.splits)

lemma reachable_inv: "reachable g \<Longrightarrow> engine_inv g"
  by (induction rule: reachable.induct)
     (simp_all add: engine_inv_init engine_inv_add_train engine_inv_remove_train
        engine_inv_update)

lemma add_train_first_train: "add_train RIGHT ''A'' (Game []) = Inr first_train"
  by (simp only: add_train_def get_safe_spawn_position_def spawn_attempts_100
        spawn_attempts.simps)
     (simp add: engine_defs first_train_def floordiv_def randint_def)

text \<open>
  C1. In every engine state reached from the constructor by calls of \<^verbatim>\<open>add_train\<close>,
  \<^verbatim>\<open>remove_train\<close> and \<^verbatim>\<open>update\<close>, the width and the height are at least the original
  200, are positive and are multiples of the grid size.
\<close>

theorem reachable_bounds:
  assumes "reachable g"
  shows "ORIGINAL_SCREEN_WIDTH \<le> screen_width g \<and> ORIGINAL_SCREEN_HEIGHT \<le> screen_height g
         \<and> 0 < screen_width g \<and> 0 < screen_height g
         \<and> screen_width g mod grid_size g = 0 \<and> screen_height g mod grid_size g = 0"
proof -
  from reachable_inv [OF assms]
  have "grid_size g = 20" "screen_height g = screen_width g" "200 \<le> screen_width g"
    "screen_width g mod 100 = 0"
    by (simp_all add: engine_inv_def)
  then show ?thesis
    by (simp add: ORIGINAL_SCREEN_WIDTH_def ORIGINAL_SCREEN_HEIGHT_def) presburger
qed

theorem reachable_bounds_witness:
  "reachable (remove_train ''Z'' (remove_train ''Z'' (update first_train)))
   \<and> ORIGINAL_SCREEN_WIDTH \<le> screen_width (remove_train ''Z'' (remove_train ''Z'' (update first_train)))
   \<and> screen_width (remove_train ''Z'' (remove_train ''Z'' (update first_train))) = 200
   \<and> screen_height (remove_train ''Z'' (remove_train ''Z'' (update first_train))) = 200"
proof -
  have r: "reachable (remove_train ''Z'' (remove_train ''Z'' (update first_train)))"
    by (intro reachable.remove reachable.tick
          reachable.add [OF reachable.init add_train_first_train])
  from reachable_bounds [OF r] r show ?thesis
    by (simp add: engine_defs tick_defs first_train_def)
qed

text \<open>In these states the spawn ranges are not empty, and \<^verbatim>\<open>add_train\<close> returns.\<close>

lemma reachable_add_train_returns:
  assumes "reachable g"
  shows "\<exists>g'. add_train d0 name g = Inr g'"
  using add_train_Inr [OF engine_inv_spawn_ranges [OF reachable_inv [OF assms]], of d0 name]
  by blast

subsection \<open>A world too small to spawn in\<close>

text \<open>
  Steering is not among the calls of C1: with \<^verbatim>\<open>change_direction_of_train\<close> a train
  reaches the corner of the world, and two calls of \<^verbatim>\<open>remove_train\<close> with a name that
  is not in the map shrink the world to 100 by 100.
\<close>

lemma steer_to_corner:
  "remove_train ''Z'' (remove_train ''Z''
      (update (change_direction_of_train ''A'' UP
        (update (change_direction_of_train ''A'' LEFT first_train)))))
   = cornered_train"
  by (simp add: engine_defs tick_defs first_train_def cornered_train_def)

text \<open>
  C3 fails on the code. In the world of 100 by 100 reached above the range of spawn
  cells is empty, \<^verbatim>\<open>random.randint(3, 2)\<close> raises \<^verbatim>\<open>ValueError\<close> before the fallback to
  the centre is reached, and \<^verbatim>\<open>add_train\<close> does not catch it.
\<close>

theorem add_train_raises_in_shrunk_world:
  "add_train RIGHT ''A'' (Game []) = Inr first_train
   \<and> remove_train ''Z'' (remove_train ''Z''
        (update (change_direction_of_train ''A'' UP
          (update (change_direction_of_train ''A'' LEFT first_train)))))
      = cornered_train
   \<and> add_train RIGHT ''B'' cornered_train = Inl ValueError"
proof -
  have "add_train RIGHT ''B'' cornered_train = Inl ValueError"
    by (rule add_train_Inl) (simp_all add: cornered_train_def Game_def)
  with add_train_first_train steer_to_corner show ?thesis by simp
qed

subsection \<open>Writes and the lock\<close>

lemma writes_locked_only_writes:
  "only_writes es \<Longrightarrow> writes_locked True (es @ rest) = writes_locked True rest"
proof (induction es)
  case Nil
  then show ?case by simp
next
  case (Cons e es)
  then show ?case by (cases e) (auto simp: only_writes_def)
qed

lemma only_writes_append [simp]:
  "only_writes (xs @ ys) = (only_writes xs \<and> only_writes ys)"
  by (auto simp: only_writes_def)

lemma only_writes_Nil [simp]: "only_writes []"
  by (simp add: only_writes_def)

lemma only_writes_Cons [simp]:
  "only_writes (e # es) = (e \<noteq> Acquire \<and> e \<noteq> Release \<and> only_writes es)"
  by (auto simp: only_writes_def)

lemma only_writes_passengers [simp]: "only_writes (update_passengers_count_events g)"
  by (auto simp: only_writes_def update_passengers_count_events_def)

lemma only_writes_remove_train [simp]: "only_writes (remove_train_events name g)"
  by (simp add: remove_train_events_def Let_def)

lemma only_writes_remove_trains [simp]: "only_writes (remove_trains_events names g)"
  by (induction names arbitrary: g) simp_all

lemma only_writes_update_trains [simp]: "only_writes (update_trains_events names g)"
  by (induction names arbitrary: g) (simp_all add: Let_def del: update_trains.simps)

lemma update_events_locked: "writes_locked False (update_events g)"
proof (cases "trains g = []")
  case True
  then show ?thesis by (simp add: update_events_def)
next
  case False
  obtain g1 dead where u: "update_trains (map fst (trains g)) g [] = (g1, dead)"
    by (cases "update_trains (map fst (trains g)) g []")
  have "writes_locked True
          ((update_trains_events (map fst (trains g)) g @ remove_trains_events dead g1) @ [Release])"
    by (subst writes_locked_only_writes) simp_all
  with False u show ?thesis by (simp add: update_events_def)
qed

text \<open>
  C10 fails on the code. \<^verbatim>\<open>remove_train\<close> and \<^verbatim>\<open>change_direction_of_train\<close> write
  the shared state and never take the lock, and \<^verbatim>\<open>add_train\<close> changes the width and
  the height after it has released the lock; only \<^verbatim>\<open>update\<close> and the first part of
  \<^verbatim>\<open>add_train\<close> write under the lock.
\<close>

theorem writes_outside_lock:
  "\<not> writes_locked False (remove_train_events ''A'' first_train)
   \<and> \<not> writes_locked False (change_direction_of_train_events ''A'' LEFT first_train)
   \<and> \<not> writes_locked False (add_train_events RIGHT ''A'' (Game []))"
proof -
  have "get_safe_spawn_position 100 (Game []) = Inr ((60, 60), Game [])"
    by (simp only: get_safe_spawn_position_def spawn_attempts_100 spawn_attempts.simps)
       (simp add: engine_defs floordiv_def randint_def)
  then have "\<not> writes_locked False (add_train_events RIGHT ''A'' (Game []))"
    by (simp add: add_train_events_def update_passengers_count_events_def
          desired_passengers_def Game_def)
  then show ?thesis
    by (simp add: remove_train_events_def change_direction_of_train_events_def
          update_passengers_count_events_def engine_defs first_train_def)
qed

end
